theory Spec2Isabelle
  imports Complex_Main
begin

section \<open>Swagen TypeScript language helpers (src/index.ts)\<close>

text \<open>
  The module consists of five pure functions over already parsed descriptors:
  \<open>buildHeader\<close>, \<open>buildOperationDocComments\<close>, \<open>getDataType\<close> (with its helpers
  \<open>getPrimitiveTypeName\<close> and \<open>prefixNamespace\<close>), \<open>getMethodSignature\<close> and
  \<open>getReturnType\<close>. They are embedded below as HOL functions. A thrown \<open>Error\<close> is a
  value \<open>Inl e\<close> of the result type \<open>error + 'a\<close>; a normal return is \<open>Inr v\<close>.
\<close>

subsection \<open>Values of the host language\<close>

text \<open>
  An optional string field holds \<open>None\<close> when the field is \<open>undefined\<close> (or \<open>null\<close>) and
  \<open>Some s\<close> when it is the string \<open>s\<close>. A condition such as \<open>if (profile.mode)\<close> tests
  truthiness: it is false for \<open>undefined\<close> and for the empty string.
\<close>

definition truthy :: "string option \<Rightarrow> bool" where
  "truthy v = (case v of None \<Rightarrow> False | Some s \<Rightarrow> s \<noteq> [])"

text \<open>Interpolation \<open>${v}\<close> inside a template literal.\<close>

definition interp :: "string option \<Rightarrow> string" where
  "interp v = (case v of None \<Rightarrow> ''undefined'' | Some s \<Rightarrow> s)"

text \<open>
  Numbers: a finite number is a rational (every finite double is one), beside the three
  special values. Only the two comparisons of \<open>getReturnType\<close> are needed; both are false
  on \<open>NaN\<close>.
\<close>

datatype jsNumber = NaN | PosInfinity | NegInfinity | Finite rat

fun numGe :: "jsNumber \<Rightarrow> rat \<Rightarrow> bool" where
  "numGe NaN b = False"
| "numGe PosInfinity b = True"
| "numGe NegInfinity b = False"
| "numGe (Finite q) b = (b \<le> q)"

fun numLt :: "jsNumber \<Rightarrow> rat \<Rightarrow> bool" where
  "numLt NaN b = False"
| "numLt PosInfinity b = False"
| "numLt NegInfinity b = True"
| "numLt (Finite q) b = (q < b)"

text \<open>
  Property keys. A key is an array index when it is the canonical decimal notation (digits
  only, no leading zero) of an integer below \<open>2^32 - 1\<close>. An object is kept as the list
  of its own enumerable properties in the order of their creation, each key once.
  \<open>for (... in ...)\<close> visits the keys that are array indices first, in ascending numeric
  order, and then the other keys in the order of their creation. (The prototype of such an
  object has no enumerable property.)
\<close>

definition digitValue :: "char \<Rightarrow> nat" where
  "digitValue c = of_char c - 48"

definition isDigit :: "char \<Rightarrow> bool" where
  "isDigit c = (48 \<le> (of_char c :: nat) \<and> (of_char c :: nat) \<le> 57)"

definition decimalValue :: "string \<Rightarrow> nat" where
  "decimalValue s = foldl (\<lambda>acc c. 10 * acc + digitValue c) 0 s"

definition isArrayIndex :: "string \<Rightarrow> bool" where
  "isArrayIndex s =
    (s \<noteq> [] \<and> list_all isDigit s \<and> (hd s \<noteq> CHR ''0'' \<or> s = ''0'')
     \<and> decimalValue s < 4294967295)"

definition forInOrder :: "(string \<times> 'a) list \<Rightarrow> (string \<times> 'a) list" where
  "forInOrder props =
    sort_key (\<lambda>e. decimalValue (fst e)) (filter (\<lambda>e. isArrayIndex (fst e)) props)
    @ filter (\<lambda>e. \<not> isArrayIndex (fst e)) props"

subsection \<open>Interfaces\<close>

record Profile =
  generator :: string
  mode :: "string option"

record Metadata =
  title :: "string option"
  description :: "string option"
  baseUrl :: "string option"

record Definition =
  metadata :: "Metadata option"

text \<open>
  The interface restricts \<open>primitive\<close> and \<open>subType\<close> to a few literals, but the code
  has a \<open>default\<close> branch for any other value, so both fields are arbitrary strings here.
\<close>

record Property =
  primitive :: "string option"
  subType :: "string option"
  complex :: "string option"
  enum :: "string option"
  isArray :: bool

record Parameter =
  name :: string
  description :: "string option"
  dataType :: Property

record Response =
  dataType :: "Property option"

text \<open>
  \<open>responses\<close> is an object keyed by status code: the list of its own enumerable
  properties in the order of their creation.
\<close>

record Operation =
  description :: "string option"
  description2 :: "string option"
  parameters :: "Parameter list option"
  responses :: "(string \<times> Response) list option"

record ReturnTypeOptions =
  modelsNs :: "string option"
  voidType :: "string option"

record MethodSignatureOptions = ReturnTypeOptions +
  returnTypeTransformer :: "(string \<Rightarrow> string) option"

text \<open>
  The two errors of the module. Each message ends with
  \<open>JSON.stringify(property, null, 4)\<close> of the property at hand, so the error value carries
  that property: \<open>UnresolvableTypeKind\<close> is "Cannot understand type of property in
  definition: ..." and \<open>UnrecognizedPrimitiveKind\<close> is "Cannot translate primitive type ...".
  The third is the \<open>TypeError\<close> of the runtime for a call of a value that is no function.
\<close>

datatype error =
    UnresolvableTypeKind Property
  | UnrecognizedPrimitiveKind Property
  | NotAFunction

subsection \<open>buildHeader\<close>

definition buildHeader :: "Profile \<Rightarrow> Definition option \<Rightarrow> string list" where
  "buildHeader profile definition =
    (let header = [''//------------------------------'',
                   ''// <auto-generated>'',
                   ''//     Generated using the Swagen tool'',
                   ''//     Generator: '' @ generator profile];
         header = (if truthy (mode profile)
                   then header @ [''//     Mode: '' @ interp (mode profile)] else header);
         header = header @ [''// </auto-generated>'',
                            ''//------------------------------'']
     in case definition of
          None \<Rightarrow> header
        | Some d \<Rightarrow>
            (case metadata d of
               None \<Rightarrow> header
             | Some m \<Rightarrow>
                 (let header = (if truthy (title m)
                                then header @ [''// '' @ interp (title m)] else header);
                      header = (if truthy (Metadata.description m)
                                then header @ [''// '' @ interp (Metadata.description m)]
                                else header);
                      header = (if truthy (baseUrl m)
                                then header @ [''// Base URL: '' @ interp (baseUrl m)]
                                else header)
                  in header)))"

subsection \<open>getDataType\<close>

definition prefixNamespace :: "string \<Rightarrow> string option \<Rightarrow> string" where
  "prefixNamespace nm ns = (if truthy ns then interp ns @ ''.'' @ nm else nm)"

definition getPrimitiveTypeName :: "Property \<Rightarrow> error + string" where
  "getPrimitiveTypeName property =
    (if primitive property = Some ''integer'' \<or> primitive property = Some ''number''
     then Inr ''number''
     else if primitive property = Some ''string'' then
       (if subType property = Some ''date-time'' then Inr ''Date''
        else if subType property = Some ''uuid'' then Inr ''string''
        else if subType property = Some ''byte'' then Inr ''number''
        else Inr ''string'')
     else if primitive property = Some ''boolean'' then Inr ''boolean''
     else if primitive property = Some ''file'' \<or> primitive property = Some ''object''
     then Inr ''any''
     else Inl (UnrecognizedPrimitiveKind property))"

definition getDataType :: "Property \<Rightarrow> string option \<Rightarrow> error + string" where
  "getDataType property ns =
    (case (if truthy (primitive property) then getPrimitiveTypeName property
           else if truthy (complex property)
           then Inr (prefixNamespace (interp (complex property)) ns)
           else if truthy (enum property)
           then Inr (prefixNamespace (interp (enum property)) ns)
           else Inl (UnresolvableTypeKind property)) of
       Inl e \<Rightarrow> Inl e
     | Inr typeName \<Rightarrow> Inr (if isArray property then typeName @ ''[]'' else typeName))"

subsection \<open>buildOperationDocComments\<close>

text \<open>The expression \<open>operation.parameters || []\<close>; an array is truthy even when empty.\<close>

definition parametersOrEmpty :: "Operation \<Rightarrow> Parameter list" where
  "parametersOrEmpty operation = (case parameters operation of None \<Rightarrow> [] | Some ps \<Rightarrow> ps)"

text \<open>
  The \<open>for\<close> loop over the described parameters: each turn resolves the data type (which
  may throw) and pushes one line onto \<open>comments\<close>.
\<close>

fun describeParams :: "string list \<Rightarrow> Parameter list \<Rightarrow> error + string list" where
  "describeParams comments [] = Inr comments"
| "describeParams comments (describedParam # rest) =
    (case getDataType (Parameter.dataType describedParam) None of
       Inl e \<Rightarrow> Inl e
     | Inr dt \<Rightarrow>
         describeParams
           (comments @ ['' * @param {'' @ dt @ ''} '' @ name describedParam @ '' - ''
                          @ interp (Parameter.description describedParam)])
           rest)"

definition buildOperationDocComments :: "Operation \<Rightarrow> error + string list" where
  "buildOperationDocComments operation =
    (let comments = [];
         comments = (if truthy (Operation.description operation)
                     then comments @ ['' * '' @ interp (Operation.description operation)]
                     else comments);
         comments = (if truthy (description2 operation)
                     then comments @ ['' * '' @ interp (description2 operation)]
                     else comments);
         describedParams =
           filter (\<lambda>p. truthy (Parameter.description p)) (parametersOrEmpty operation)
     in case describeParams comments describedParams of
          Inl e \<Rightarrow> Inl e
        | Inr comments \<Rightarrow>
            Inr (if length comments > 0 then [''/**''] @ comments @ ['' */'']
                 else comments))"

subsection \<open>getReturnType and getMethodSignature\<close>

text \<open>
  The conversion \<open>+statusKey\<close> of a property key to a number belongs to the language, not
  to this module; it is the parameter \<open>toNumber\<close> of the two functions below, and every
  theorem about them holds for each conversion.
\<close>

text \<open>
  The loop of \<open>getReturnType\<close> over the keys still to visit. Each turn first calls
  \<open>operation.responses.hasOwnProperty(statusKey)\<close>: when the object has an own property
  of the name \<open>hasOwnProperty\<close>, that response is found in place of the method and the
  call throws; otherwise the call tells whether \<open>statusKey\<close> is an own key, and
  \<open>operation.responses[statusKey]\<close> is its value.
\<close>

fun scanResponses ::
  "(string \<Rightarrow> jsNumber) \<Rightarrow> (string \<times> Response) list \<Rightarrow> string list \<Rightarrow> string option
    \<Rightarrow> (error + string) option"
where
  "scanResponses toNumber obj [] ns = None"
| "scanResponses toNumber obj (statusKey # rest) ns =
    (if map_of obj ''hasOwnProperty'' \<noteq> None then Some (Inl NotAFunction)
     else case map_of obj statusKey of
            None \<Rightarrow> scanResponses toNumber obj rest ns
          | Some response \<Rightarrow>
              if numGe (toNumber statusKey) 200 \<and> numLt (toNumber statusKey) 300
                 \<and> Response.dataType response \<noteq> None
              then Some (getDataType (the (Response.dataType response)) ns)
              else scanResponses toNumber obj rest ns)"

definition getReturnType ::
  "(string \<Rightarrow> jsNumber) \<Rightarrow> Operation \<Rightarrow> 'a ReturnTypeOptions_scheme \<Rightarrow> error + string"
where
  "getReturnType toNumber operation options =
    (case responses operation of
       None \<Rightarrow> Inr (if truthy (voidType options) then interp (voidType options) else ''void'')
     | Some obj \<Rightarrow>
         (case scanResponses toNumber obj (map fst (forInOrder obj)) (modelsNs options) of
            Some result \<Rightarrow> result
          | None \<Rightarrow>
              Inr (if truthy (voidType options) then interp (voidType options)
                   else ''void'')))"

text \<open>The \<open>reduce\<close> over the parameters, started with the empty string.\<close>

fun reduceParameters :: "string option \<Rightarrow> string \<Rightarrow> Parameter list \<Rightarrow> error + string" where
  "reduceParameters ns accumulate [] = Inr accumulate"
| "reduceParameters ns accumulate (parameter # rest) =
    (let accumulate = (if accumulate \<noteq> [] then accumulate @ '', '' else accumulate) in
     case getDataType (Parameter.dataType parameter) ns of
       Inl e \<Rightarrow> Inl e
     | Inr dt \<Rightarrow> reduceParameters ns (accumulate @ name parameter @ '': '' @ dt) rest)"

definition getMethodSignature ::
  "(string \<Rightarrow> jsNumber) \<Rightarrow> string \<Rightarrow> Operation \<Rightarrow> MethodSignatureOptions \<Rightarrow> error + string"
where
  "getMethodSignature toNumber operationName operation options =
    (case reduceParameters (modelsNs options) [] (parametersOrEmpty operation) of
       Inl e \<Rightarrow> Inl e
     | Inr params \<Rightarrow>
         (case getReturnType toNumber operation options of
            Inl e \<Rightarrow> Inl e
          | Inr returnType \<Rightarrow>
              (let returnType = (case returnTypeTransformer options of
                                   Some f \<Rightarrow> f returnType
                                 | None \<Rightarrow> returnType)
               in Inr (operationName @ ''('' @ params @ ''): '' @ returnType))))"

text \<open>
  A conversion for the examples, which use keys such as \<open>"200"\<close>, \<open>"404"\<close> and
  \<open>"default"\<close> only: a key made of decimal digits is taken to the integer it denotes and
  any other key to \<open>NaN\<close>.
\<close>

definition decimalKey :: "string \<Rightarrow> jsNumber" where
  "decimalKey s =
    (if s \<noteq> [] \<and> list_all isDigit s then Finite (of_nat (decimalValue s)) else NaN)"

subsection \<open>Notions of the specification\<close>

text \<open>
  The primitive kinds the specification recognises, and its well-formedness of a property:
  exactly one of \<open>primitive\<close>, \<open>complex\<close>, \<open>enum\<close> is set, and a primitive is one of
  the recognised kinds. A field is set when it is truthy.
\<close>

definition recognizedPrimitives :: "string list" where
  "recognizedPrimitives = [''integer'', ''number'', ''string'', ''boolean'', ''file'', ''object'']"

definition wellFormed :: "Property \<Rightarrow> bool" where
  "wellFormed p =
    ((truthy (primitive p) \<and> \<not> truthy (complex p) \<and> \<not> truthy (enum p)
        \<and> interp (primitive p) \<in> set recognizedPrimitives)
     \<or> (\<not> truthy (primitive p) \<and> truthy (complex p) \<and> \<not> truthy (enum p))
     \<or> (\<not> truthy (primitive p) \<and> \<not> truthy (complex p) \<and> truthy (enum p)))"

text \<open>The array notation: \<open>property.isArray ? typeName + '[]' : typeName\<close>.\<close>

abbreviation arraySuffixed :: "Property \<Rightarrow> string \<Rightarrow> string" where
  "arraySuffixed p t \<equiv> (if isArray p then t @ ''[]'' else t)"

text \<open>
  A parameter is described when its description is set. The content lines of the
  documentation comment are the line of the description, the line of the second
  description and one line for each described parameter.
\<close>

definition described :: "Parameter \<Rightarrow> bool" where
  "described p = truthy (Parameter.description p)"

definition contentLineCount :: "Operation \<Rightarrow> nat" where
  "contentLineCount operation =
    (if truthy (Operation.description operation) then 1 else 0)
    + (if truthy (description2 operation) then 1 else 0)
    + length (filter described (parametersOrEmpty operation))"

text \<open>
  The parameter section of a signature joins the pairs \<open>name: type\<close> with a separator,
  as \<open>Array.prototype.join\<close> does.
\<close>

fun joinWith :: "string \<Rightarrow> string list \<Rightarrow> string" where
  "joinWith sep [] = []"
| "joinWith sep [x] = x"
| "joinWith sep (x # y # ys) = x @ sep @ joinWith sep (y # ys)"

definition parameterPair :: "Parameter \<Rightarrow> string \<Rightarrow> string" where
  "parameterPair p t = name p @ '': '' @ t"

text \<open>
  A response qualifies when the number its key converts to lies in the interval from 200
  (included) to 300 (excluded) and it declares a data type. The void default is
  \<open>options.voidType\<close> when that is set and \<open>void\<close> otherwise.
\<close>

definition inSuccessRange :: "jsNumber \<Rightarrow> bool" where
  "inSuccessRange n = (case n of Finite q \<Rightarrow> 200 \<le> q \<and> q < 300 | _ \<Rightarrow> False)"

definition qualifies :: "(string \<Rightarrow> jsNumber) \<Rightarrow> string \<times> Response \<Rightarrow> bool" where
  "qualifies toNumber entry =
    (inSuccessRange (toNumber (fst entry)) \<and> Response.dataType (snd entry) \<noteq> None)"

definition voidDefault :: "'a ReturnTypeOptions_scheme \<Rightarrow> string" where
  "voidDefault options =
    (case voidType options of None \<Rightarrow> ''void'' | Some v \<Rightarrow> if v = [] then ''void'' else v)"

section \<open>Basic facts\<close>

lemma truthy_Some [simp]: "truthy (Some s) = (s \<noteq> [])"
  by (simp add: truthy_def)

lemma truthy_None [simp]: "\<not> truthy None"
  by (simp add: truthy_def)

lemma interp_Some [simp]: "interp (Some s) = s"
  by (simp add: interp_def)

lemma truthyE: "truthy v \<Longrightarrow> (\<And>s. v = Some s \<Longrightarrow> s \<noteq> [] \<Longrightarrow> P) \<Longrightarrow> P"
  by (cases v) auto

lemma primitive_recognized_iff:
  "truthy (primitive p) \<Longrightarrow>
   (\<exists>e. getPrimitiveTypeName p = Inl e) = (interp (primitive p) \<notin> set recognizedPrimitives)"
  by (erule truthyE) (auto simp: getPrimitiveTypeName_def recognizedPrimitives_def)

lemma primitive_error_payload:
  "getPrimitiveTypeName p = Inl e \<Longrightarrow> e = UnrecognizedPrimitiveKind p"
  by (auto simp: getPrimitiveTypeName_def split: if_splits)

lemma getDataType_primitive_branch:
  "truthy (primitive p) \<Longrightarrow>
   getDataType p ns = map_sum id (arraySuffixed p) (getPrimitiveTypeName p)"
  by (cases "getPrimitiveTypeName p") (simp_all add: getDataType_def)

lemma getDataType_complex_branch:
  "\<not> truthy (primitive p) \<Longrightarrow> truthy (complex p) \<Longrightarrow>
   getDataType p ns = Inr (arraySuffixed p (prefixNamespace (interp (complex p)) ns))"
  by (simp add: getDataType_def)

lemma getDataType_enum_branch:
  "\<not> truthy (primitive p) \<Longrightarrow> \<not> truthy (complex p) \<Longrightarrow> truthy (enum p) \<Longrightarrow>
   getDataType p ns = Inr (arraySuffixed p (prefixNamespace (interp (enum p)) ns))"
  by (simp add: getDataType_def)

lemma getDataType_no_branch:
  "\<not> truthy (primitive p) \<Longrightarrow> \<not> truthy (complex p) \<Longrightarrow> \<not> truthy (enum p) \<Longrightarrow>
   getDataType p ns = Inl (UnresolvableTypeKind p)"
  by (simp add: getDataType_def)

lemma getPrimitiveTypeName_fields:
  "primitive q = primitive p \<Longrightarrow> subType q = subType p \<Longrightarrow>
   map_sum (\<lambda>_. ()) id (getPrimitiveTypeName q) = map_sum (\<lambda>_. ()) id (getPrimitiveTypeName p)"
  by (simp add: getPrimitiveTypeName_def)

lemma getDataType_error_cases:
  "getDataType p ns = Inl e \<Longrightarrow>
   (truthy (primitive p) \<and> getPrimitiveTypeName p = Inl e \<and> e = UnrecognizedPrimitiveKind p)
   \<or> (\<not> truthy (primitive p) \<and> \<not> truthy (complex p) \<and> \<not> truthy (enum p)
       \<and> e = UnresolvableTypeKind p)"
  by (cases "getPrimitiveTypeName p")
     (auto simp: getDataType_def split: if_splits dest: primitive_error_payload)

lemma getDataType_unrecognized:
  "truthy (primitive p) \<Longrightarrow> interp (primitive p) \<notin> set recognizedPrimitives \<Longrightarrow>
   getDataType p ns = Inl (UnrecognizedPrimitiveKind p)"
proof -
  assume t: "truthy (primitive p)" and n: "interp (primitive p) \<notin> set recognizedPrimitives"
  from t n obtain e where e: "getPrimitiveTypeName p = Inl e"
    using primitive_recognized_iff [of p] by blast
  then have "e = UnrecognizedPrimitiveKind p" by (rule primitive_error_payload)
  with e t show ?thesis by (simp add: getDataType_primitive_branch)
qed

lemma getDataType_recognized:
  "truthy (primitive p) \<Longrightarrow> interp (primitive p) \<in> set recognizedPrimitives \<Longrightarrow>
   \<exists>t. getDataType p ns = Inr t"
proof -
  assume t: "truthy (primitive p)" and n: "interp (primitive p) \<in> set recognizedPrimitives"
  from t n have "\<not> (\<exists>e. getPrimitiveTypeName p = Inl e)"
    using primitive_recognized_iff [of p] by blast
  then obtain u where "getPrimitiveTypeName p = Inr u"
    by (cases "getPrimitiveTypeName p") auto
  with t show ?thesis by (simp add: getDataType_primitive_branch)
qed

lemma wellFormed_resolves: "wellFormed p \<Longrightarrow> \<exists>t. getDataType p ns = Inr t"
  unfolding wellFormed_def
  by (auto simp: getDataType_complex_branch getDataType_enum_branch
           intro: getDataType_recognized)

lemma describeParams_extends:
  "describeParams comments ps = Inr ls \<Longrightarrow>
   \<exists>new. ls = comments @ new \<and> length new = length ps"
proof (induction ps arbitrary: comments)
  case Nil
  then show ?case by simp
next
  case (Cons p ps)
  from Cons.prems obtain dt where
    dt: "getDataType (Parameter.dataType p) None = Inr dt"
    by (cases "getDataType (Parameter.dataType p) None") auto
  let ?line = "'' * @param {'' @ dt @ ''} '' @ name p @ '' - '' @ interp (Parameter.description p)"
  from Cons.prems dt have "describeParams (comments @ [?line]) ps = Inr ls"
    by simp
  from Cons.IH [OF this] obtain new where
    "ls = (comments @ [?line]) @ new" and "length new = length ps"
    by blast
  then have "ls = comments @ (?line # new) \<and> length (?line # new) = length (p # ps)"
    by simp
  then show ?case by blast
qed

lemma describeParams_succeeds:
  "\<forall>p\<in>set ps. \<exists>t. getDataType (Parameter.dataType p) None = Inr t \<Longrightarrow>
   \<exists>ls. describeParams comments ps = Inr ls"
proof (induction ps arbitrary: comments)
  case Nil
  then show ?case by simp
next
  case (Cons p ps)
  then obtain t where "getDataType (Parameter.dataType p) None = Inr t"
    by auto
  moreover have "\<forall>q\<in>set ps. \<exists>t. getDataType (Parameter.dataType q) None = Inr t"
    using Cons.prems by simp
  ultimately show ?case using Cons.IH by simp
qed

lemma buildOperationDocComments_unfold:
  "buildOperationDocComments operation =
    (case describeParams
            ((if truthy (Operation.description operation)
              then ['' * '' @ interp (Operation.description operation)] else [])
             @ (if truthy (description2 operation)
                then ['' * '' @ interp (description2 operation)] else []))
            (filter described (parametersOrEmpty operation)) of
       Inl e \<Rightarrow> Inl e
     | Inr comments \<Rightarrow>
         Inr (if comments = [] then [] else [''/**''] @ comments @ ['' */'']))"
proof -
  have "described = (\<lambda>p. truthy (Parameter.description p))"
    by (rule ext) (simp add: described_def)
  then show ?thesis
    by (simp add: buildOperationDocComments_def Let_def split: sum.splits)
qed

lemma joinWith_Cons: "joinWith sep (x # xs) = x @ concat (map ((@) sep) xs)"
  by (induction xs arbitrary: x) simp_all

lemma reduceParameters_nonempty:
  "list_all2 (\<lambda>p t. getDataType (Parameter.dataType p) ns = Inr t) ps ts \<Longrightarrow>
   accumulate \<noteq> [] \<Longrightarrow>
   reduceParameters ns accumulate ps
     = Inr (accumulate @ concat (map ((@) '', '') (map2 parameterPair ps ts)))"
proof (induction ps ts arbitrary: accumulate rule: list_all2_induct)
  case Nil
  then show ?case by simp
next
  case (Cons p ps t ts)
  have "accumulate @ '', '' @ name p @ '': '' @ t \<noteq> []"
    by simp
  from Cons.IH [OF this] Cons.hyps(1) Cons.prems show ?case
    by (simp add: parameterPair_def)
qed

lemma reduceParameters_join:
  "list_all2 (\<lambda>p t. getDataType (Parameter.dataType p) ns = Inr t) ps ts \<Longrightarrow>
   reduceParameters ns [] ps = Inr (joinWith '', '' (map2 parameterPair ps ts))"
proof (cases ps)
  case Nil
  assume "list_all2 (\<lambda>p t. getDataType (Parameter.dataType p) ns = Inr t) ps ts"
  with Nil show ?thesis by simp
next
  case (Cons p ps')
  assume a: "list_all2 (\<lambda>p t. getDataType (Parameter.dataType p) ns = Inr t) ps ts"
  with Cons obtain t ts' where ts: "ts = t # ts'"
    and t: "getDataType (Parameter.dataType p) ns = Inr t"
    and rest: "list_all2 (\<lambda>p t. getDataType (Parameter.dataType p) ns = Inr t) ps' ts'"
    by (auto simp: list_all2_Cons1)
  have "name p @ '': '' @ t \<noteq> []" by simp
  from reduceParameters_nonempty [OF rest this] t show ?thesis
    by (simp add: Cons ts joinWith_Cons parameterPair_def)
qed

lemma getReturnType_more [simp]:
  "getReturnType toNumber operation (options\<lparr>returnTypeTransformer := x\<rparr>)
   = getReturnType toNumber operation options"
  by (simp add: getReturnType_def split: option.splits)

lemma numeric_range: "(numGe n 200 \<and> numLt n 300) = inSuccessRange n"
  by (cases n) (simp_all add: inSuccessRange_def)

lemma scanResponses_entries_none:
  "map_of obj ''hasOwnProperty'' = None \<Longrightarrow>
   \<forall>e\<in>set es. map_of obj (fst e) = Some (snd e) \<Longrightarrow>
   \<forall>e\<in>set es. \<not> qualifies toNumber e \<Longrightarrow>
   scanResponses toNumber obj (map fst es) ns = None"
  by (induction es) (auto simp: qualifies_def numeric_range [symmetric])

lemma scanResponses_entries_first:
  "map_of obj ''hasOwnProperty'' = None \<Longrightarrow>
   \<forall>e\<in>set es. map_of obj (fst e) = Some (snd e) \<Longrightarrow>
   i < length es \<Longrightarrow> qualifies toNumber (es ! i) \<Longrightarrow>
   \<forall>j<i. \<not> qualifies toNumber (es ! j) \<Longrightarrow>
   Response.dataType (snd (es ! i)) = Some dt \<Longrightarrow>
   scanResponses toNumber obj (map fst es) ns = Some (getDataType dt ns)"
proof (induction es arbitrary: i)
  case Nil
  then show ?case by simp
next
  case (Cons e es)
  from Cons.prems(2) have here: "map_of obj (fst e) = Some (snd e)"
    and there: "\<forall>x\<in>set es. map_of obj (fst x) = Some (snd x)"
    by simp_all
  show ?case
  proof (cases i)
    case 0
    with Cons.prems here show ?thesis
      by (simp add: qualifies_def numeric_range [symmetric])
  next
    case (Suc i')
    with Cons.prems have no: "\<not> qualifies toNumber e" by auto
    from Suc Cons.prems there
    have "scanResponses toNumber obj (map fst es) ns = Some (getDataType dt ns)"
      by (intro Cons.IH [of i']) auto
    with no here Cons.prems(1) show ?thesis
      by (auto simp: qualifies_def numeric_range [symmetric])
  qed
qed

lemma set_forInOrder: "set (forInOrder props) = set props"
  by (auto simp: forInOrder_def)

lemma forInOrder_lookup:
  "distinct (map fst props) \<Longrightarrow>
   \<forall>e\<in>set (forInOrder props). map_of props (fst e) = Some (snd e)"
  by (simp add: set_forInOrder)

lemma no_own_hasOwnProperty:
  "''hasOwnProperty'' \<notin> set (map fst props) \<Longrightarrow> map_of props ''hasOwnProperty'' = None"
  by (simp add: map_of_eq_None_iff)

lemma arrayIndex_200: "isArrayIndex ''200'' \<and> decimalValue ''200'' = 200"
  by (simp add: isArrayIndex_def decimalValue_def isDigit_def digitValue_def)

lemma arrayIndex_201: "isArrayIndex ''201'' \<and> decimalValue ''201'' = 201"
  by (simp add: isArrayIndex_def decimalValue_def isDigit_def digitValue_def)

lemma arrayIndex_404: "isArrayIndex ''404'' \<and> decimalValue ''404'' = 404"
  by (simp add: isArrayIndex_def decimalValue_def isDigit_def digitValue_def)

lemma arrayIndex_default: "\<not> isArrayIndex ''default''"
  by (simp add: isArrayIndex_def isDigit_def)

lemma void_default: 
  "(if truthy (voidType options) then interp (voidType options) else ''void'') = voidDefault options"
  by (cases "voidType options") (simp_all add: voidDefault_def)

lemma decimalKey_200: "decimalKey ''200'' = Finite 200"
  by (simp add: decimalKey_def decimalValue_def isDigit_def digitValue_def)

lemma decimalKey_201: "decimalKey ''201'' = Finite 201"
  by (simp add: decimalKey_def decimalValue_def isDigit_def digitValue_def)

lemma decimalKey_404: "decimalKey ''404'' = Finite 404"
  by (simp add: decimalKey_def decimalValue_def isDigit_def digitValue_def)

lemma decimalKey_default: "decimalKey ''default'' = NaN"
  by (simp add: decimalKey_def isDigit_def)

lemma forInOrder_single_200: "forInOrder [(''200'', r)] = [(''200'', r)]"
  by (simp add: forInOrder_def arrayIndex_200)

section \<open>buildHeader\<close>

text \<open>
  C3 (as amended). Called with a profile whose mode is absent and a definition without
  metadata, \<open>buildHeader\<close> leaves out the mode line and every metadata line and returns
  exactly six lines: border, open marker of the auto-generated block, the fixed line
  "Generated using the Swagen tool", generator line, close marker, border. A missing
  definition gives the same lines.
\<close>

theorem buildHeader_six_lines:
  "\<not> truthy (mode profile) \<Longrightarrow> metadata d = None \<Longrightarrow>
   buildHeader profile (Some d) =
     [''//------------------------------'',
      ''// <auto-generated>'',
      ''//     Generated using the Swagen tool'',
      ''//     Generator: '' @ generator profile,
      ''// </auto-generated>'',
      ''//------------------------------'']
   \<and> buildHeader profile None = buildHeader profile (Some d)
   \<and> length (buildHeader profile (Some d)) = 6"
  by (simp add: buildHeader_def)

text \<open>The instance \<open>buildHeader({generator: "X"}, {})\<close>.\<close>

theorem buildHeader_six_lines_witness:
  "buildHeader \<lparr>generator = ''X'', mode = None\<rparr> (Some \<lparr>metadata = None\<rparr>) =
     [''//------------------------------'',
      ''// <auto-generated>'',
      ''//     Generated using the Swagen tool'',
      ''//     Generator: X'',
      ''// </auto-generated>'',
      ''//------------------------------'']"
  using buildHeader_six_lines [of "\<lparr>generator = ''X'', mode = None\<rparr>" "\<lparr>metadata = None\<rparr>"]
  by simp

text \<open>
  C3 as stated asks for exactly five lines; the header of that call has six, because the
  line "Generated using the Swagen tool" is always present.
\<close>

theorem buildHeader_five_lines_counterexample:
  "length (buildHeader \<lparr>generator = ''X'', mode = None\<rparr> (Some \<lparr>metadata = None\<rparr>)) \<noteq> 5"
  by (simp add: buildHeader_def)

section \<open>getDataType\<close>

text \<open>
  C2. The table of primitive kinds: \<open>integer\<close> and \<open>number\<close> resolve to \<open>number\<close>;
  \<open>string\<close> resolves to \<open>Date\<close> with sub-type \<open>date-time\<close>, to \<open>string\<close> with sub-type
  \<open>uuid\<close> or without sub-type, and to \<open>number\<close> with sub-type \<open>byte\<close>; \<open>boolean\<close>
  resolves to \<open>boolean\<close>; \<open>file\<close> and \<open>object\<close> resolve to \<open>any\<close>. This is the name
  \<open>getPrimitiveTypeName\<close> returns, and \<open>getDataType\<close> returns it whatever the namespace,
  in the array notation when \<open>isArray\<close> holds.
\<close>

theorem getDataType_primitive_table:
  "(primitive p = Some ''integer'' \<or> primitive p = Some ''number'' \<longrightarrow>
      getPrimitiveTypeName p = Inr ''number''
      \<and> getDataType p ns = Inr (arraySuffixed p ''number''))
   \<and> (primitive p = Some ''string'' \<and> subType p = Some ''date-time'' \<longrightarrow>
      getPrimitiveTypeName p = Inr ''Date''
      \<and> getDataType p ns = Inr (arraySuffixed p ''Date''))
   \<and> (primitive p = Some ''string'' \<and> (subType p = Some ''uuid'' \<or> subType p = None) \<longrightarrow>
      getPrimitiveTypeName p = Inr ''string''
      \<and> getDataType p ns = Inr (arraySuffixed p ''string''))
   \<and> (primitive p = Some ''string'' \<and> subType p = Some ''byte'' \<longrightarrow>
      getPrimitiveTypeName p = Inr ''number''
      \<and> getDataType p ns = Inr (arraySuffixed p ''number''))
   \<and> (primitive p = Some ''boolean'' \<longrightarrow>
      getPrimitiveTypeName p = Inr ''boolean''
      \<and> getDataType p ns = Inr (arraySuffixed p ''boolean''))
   \<and> (primitive p = Some ''file'' \<or> primitive p = Some ''object'' \<longrightarrow>
      getPrimitiveTypeName p = Inr ''any''
      \<and> getDataType p ns = Inr (arraySuffixed p ''any''))"
  by (auto simp: getDataType_def getPrimitiveTypeName_def)

text \<open>Instances of the table, one for each row.\<close>

theorem getDataType_primitive_table_witness:
  "getDataType \<lparr>primitive = Some ''integer'', subType = None, complex = None, enum = None,
                 isArray = False\<rparr> (Some ''Models'') = Inr ''number''
   \<and> getDataType \<lparr>primitive = Some ''string'', subType = Some ''date-time'', complex = None,
                   enum = None, isArray = False\<rparr> None = Inr ''Date''
   \<and> getDataType \<lparr>primitive = Some ''string'', subType = None, complex = None, enum = None,
                   isArray = True\<rparr> None = Inr ''string[]''
   \<and> getDataType \<lparr>primitive = Some ''string'', subType = Some ''byte'', complex = None,
                   enum = None, isArray = False\<rparr> None = Inr ''number''
   \<and> getDataType \<lparr>primitive = Some ''boolean'', subType = None, complex = None, enum = None,
                   isArray = False\<rparr> None = Inr ''boolean''
   \<and> getDataType \<lparr>primitive = Some ''file'', subType = None, complex = None, enum = None,
                   isArray = False\<rparr> None = Inr ''any''"
  using
    getDataType_primitive_table [of "\<lparr>primitive = Some ''integer'', subType = None,
      complex = None, enum = None, isArray = False\<rparr>" "Some ''Models''"]
    getDataType_primitive_table [of "\<lparr>primitive = Some ''string'', subType = Some ''date-time'',
      complex = None, enum = None, isArray = False\<rparr>" None]
    getDataType_primitive_table [of "\<lparr>primitive = Some ''string'', subType = None,
      complex = None, enum = None, isArray = True\<rparr>" None]
    getDataType_primitive_table [of "\<lparr>primitive = Some ''string'', subType = Some ''byte'',
      complex = None, enum = None, isArray = False\<rparr>" None]
    getDataType_primitive_table [of "\<lparr>primitive = Some ''boolean'', subType = None,
      complex = None, enum = None, isArray = False\<rparr>" None]
    getDataType_primitive_table [of "\<lparr>primitive = Some ''file'', subType = None,
      complex = None, enum = None, isArray = False\<rparr>" None]
  by simp

text \<open>
  C5. A property that sets more than one of \<open>primitive\<close>, \<open>complex\<close>, \<open>enum\<close> is
  resolved by the primitive branch if \<open>primitive\<close> is set, otherwise by the complex branch
  if \<open>complex\<close> is set, otherwise by the enum branch. So the fields of lower precedence
  have no influence: erasing them leaves the outcome as it is (for a failing primitive,
  up to the property carried by the error).
\<close>

theorem getDataType_precedence:
  "(truthy (primitive p) \<longrightarrow>
      getDataType p ns = map_sum id (arraySuffixed p) (getPrimitiveTypeName p)
      \<and> map_sum (\<lambda>_. ()) id (getDataType p ns) =
          map_sum (\<lambda>_. ()) id (getDataType (p\<lparr>complex := None, enum := None\<rparr>) ns))
   \<and> (\<not> truthy (primitive p) \<and> complex p = Some c \<and> c \<noteq> [] \<longrightarrow>
      getDataType p ns = Inr (arraySuffixed p (prefixNamespace c ns))
      \<and> getDataType p ns = getDataType (p\<lparr>enum := None\<rparr>) ns)
   \<and> (\<not> truthy (primitive p) \<and> \<not> truthy (complex p) \<and> enum p = Some en \<and> en \<noteq> [] \<longrightarrow>
      getDataType p ns = Inr (arraySuffixed p (prefixNamespace en ns)))"
proof (intro conjI impI)
  assume t: "truthy (primitive p)"
  show "getDataType p ns = map_sum id (arraySuffixed p) (getPrimitiveTypeName p)"
    using t by (rule getDataType_primitive_branch)
  have "map_sum (\<lambda>_. ()) id (getPrimitiveTypeName (p\<lparr>complex := None, enum := None\<rparr>))
        = map_sum (\<lambda>_. ()) id (getPrimitiveTypeName p)"
    by (rule getPrimitiveTypeName_fields) simp_all
  then show "map_sum (\<lambda>_. ()) id (getDataType p ns) =
      map_sum (\<lambda>_. ()) id (getDataType (p\<lparr>complex := None, enum := None\<rparr>) ns)"
    using t
    by (cases "getPrimitiveTypeName p";
        cases "getPrimitiveTypeName (p\<lparr>complex := None, enum := None\<rparr>)")
       (simp_all add: getDataType_primitive_branch)
next
  assume a: "\<not> truthy (primitive p) \<and> complex p = Some c \<and> c \<noteq> []"
  then show "getDataType p ns = Inr (arraySuffixed p (prefixNamespace c ns))"
    by (simp add: getDataType_complex_branch)
  from a show "getDataType p ns = getDataType (p\<lparr>enum := None\<rparr>) ns"
    by (simp add: getDataType_complex_branch)
next
  assume "\<not> truthy (primitive p) \<and> \<not> truthy (complex p) \<and> enum p = Some en \<and> en \<noteq> []"
  then show "getDataType p ns = Inr (arraySuffixed p (prefixNamespace en ns))"
    by (simp add: getDataType_enum_branch)
qed

text \<open>A property with all three kinds set, with the last two, and with the last only.\<close>

theorem getDataType_precedence_witness:
  "getDataType \<lparr>primitive = Some ''boolean'', subType = None, complex = Some ''Foo'',
                 enum = Some ''Bar'', isArray = False\<rparr> (Some ''Models'') = Inr ''boolean''
   \<and> getDataType \<lparr>primitive = None, subType = None, complex = Some ''Foo'',
                   enum = Some ''Bar'', isArray = False\<rparr> (Some ''Models'') = Inr ''Models.Foo''
   \<and> getDataType \<lparr>primitive = None, subType = None, complex = None,
                   enum = Some ''Bar'', isArray = False\<rparr> (Some ''Models'') = Inr ''Models.Bar''"
  using
    getDataType_precedence [of "\<lparr>primitive = Some ''boolean'', subType = None,
      complex = Some ''Foo'', enum = Some ''Bar'', isArray = False\<rparr>" "Some ''Models''"]
    getDataType_precedence [of "\<lparr>primitive = None, subType = None,
      complex = Some ''Foo'', enum = Some ''Bar'', isArray = False\<rparr>" "Some ''Models''" "''Foo''"]
    getDataType_precedence [of "\<lparr>primitive = None, subType = None,
      complex = None, enum = Some ''Bar'', isArray = False\<rparr>" "Some ''Models''" _ "''Bar''"]
  by (simp add: getPrimitiveTypeName_def prefixNamespace_def)

text \<open>
  C6. \<open>getDataType\<close> fails exactly in two cases: with \<open>UnresolvableTypeKind\<close> when the
  property sets none of \<open>primitive\<close>, \<open>complex\<close>, \<open>enum\<close>, and with
  \<open>UnrecognizedPrimitiveKind\<close> when \<open>primitive\<close> is set to a value outside
  integer, number, string, boolean, file, object. The error carries the property that was
  passed in, and no error is raised on a well-formed property.
\<close>

theorem getDataType_failure:
  "(getDataType p ns = Inl (UnresolvableTypeKind p) \<longleftrightarrow>
      \<not> truthy (primitive p) \<and> \<not> truthy (complex p) \<and> \<not> truthy (enum p))
   \<and> (getDataType p ns = Inl (UnrecognizedPrimitiveKind p) \<longleftrightarrow>
      truthy (primitive p) \<and> interp (primitive p) \<notin> set recognizedPrimitives)
   \<and> (\<forall>e. getDataType p ns = Inl e \<longrightarrow>
          e = UnresolvableTypeKind p \<or> e = UnrecognizedPrimitiveKind p)
   \<and> (wellFormed p \<longrightarrow> (\<exists>t. getDataType p ns = Inr t))"
proof (intro conjI allI impI)
  show "getDataType p ns = Inl (UnresolvableTypeKind p) \<longleftrightarrow>
      \<not> truthy (primitive p) \<and> \<not> truthy (complex p) \<and> \<not> truthy (enum p)"
    using getDataType_error_cases [of p ns "UnresolvableTypeKind p"]
    by (auto simp: getDataType_no_branch)
  show "getDataType p ns = Inl (UnrecognizedPrimitiveKind p) \<longleftrightarrow>
      truthy (primitive p) \<and> interp (primitive p) \<notin> set recognizedPrimitives"
  proof
    assume f: "getDataType p ns = Inl (UnrecognizedPrimitiveKind p)"
    then have t: "truthy (primitive p)"
      and "getPrimitiveTypeName p = Inl (UnrecognizedPrimitiveKind p)"
      using getDataType_error_cases [of p ns "UnrecognizedPrimitiveKind p"] by auto
    then show "truthy (primitive p) \<and> interp (primitive p) \<notin> set recognizedPrimitives"
      using primitive_recognized_iff [of p] by blast
  next
    assume "truthy (primitive p) \<and> interp (primitive p) \<notin> set recognizedPrimitives"
    then show "getDataType p ns = Inl (UnrecognizedPrimitiveKind p)"
      by (simp add: getDataType_unrecognized)
  qed
  show "e = UnresolvableTypeKind p \<or> e = UnrecognizedPrimitiveKind p"
    if "getDataType p ns = Inl e" for e
    using getDataType_error_cases [OF that] by blast
  show "\<exists>t. getDataType p ns = Inr t" if "wellFormed p"
    using that by (rule wellFormed_resolves)
qed

text \<open>One property for each kind of failure, and a well-formed one.\<close>

theorem getDataType_failure_witness:
  "getDataType \<lparr>primitive = None, subType = None, complex = None, enum = None,
                 isArray = True\<rparr> None
     = Inl (UnresolvableTypeKind \<lparr>primitive = None, subType = None, complex = None,
              enum = None, isArray = True\<rparr>)
   \<and> getDataType \<lparr>primitive = Some ''float'', subType = None, complex = Some ''Foo'',
                   enum = None, isArray = False\<rparr> None
     = Inl (UnrecognizedPrimitiveKind \<lparr>primitive = Some ''float'', subType = None,
              complex = Some ''Foo'', enum = None, isArray = False\<rparr>)
   \<and> wellFormed \<lparr>primitive = None, subType = None, complex = None, enum = Some ''Color'',
                  isArray = False\<rparr>
   \<and> (\<exists>t. getDataType \<lparr>primitive = None, subType = None, complex = None,
                         enum = Some ''Color'', isArray = False\<rparr> None = Inr t)"
  using
    getDataType_failure [of "\<lparr>primitive = None, subType = None, complex = None, enum = None,
      isArray = True\<rparr>" None]
    getDataType_failure [of "\<lparr>primitive = Some ''float'', subType = None,
      complex = Some ''Foo'', enum = None, isArray = False\<rparr>" None]
    getDataType_failure [of "\<lparr>primitive = None, subType = None, complex = None,
      enum = Some ''Color'', isArray = False\<rparr>" None]
  by (simp add: recognizedPrimitives_def wellFormed_def)

text \<open>
  C4. For a property with \<open>isArray\<close> true, \<open>getDataType\<close> returns what it returns for
  the same property with \<open>isArray\<close> false, followed by \<open>[]\<close>, and fails exactly when
  that resolution fails. The namespace is prefixed to complex and enum names only: a
  primitive resolves to the same result with and without a namespace. The array notation
  comes last, after the prefix.
\<close>

theorem getDataType_array_suffix:
  "(isArray p \<and> getDataType (p\<lparr>isArray := False\<rparr>) ns = Inr t \<longrightarrow>
      getDataType p ns = Inr (t @ ''[]''))
   \<and> (isArray p \<longrightarrow>
      (\<exists>e. getDataType p ns = Inl e) = (\<exists>e. getDataType (p\<lparr>isArray := False\<rparr>) ns = Inl e))
   \<and> (truthy (primitive p) \<longrightarrow>
      getDataType p ns = getDataType p None
      \<and> getDataType p ns = map_sum id (arraySuffixed p) (getPrimitiveTypeName p))
   \<and> (\<not> truthy (primitive p) \<and> complex p = Some c \<and> c \<noteq> [] \<and> ns = Some n \<and> n \<noteq> [] \<longrightarrow>
      getDataType p ns = Inr (arraySuffixed p (n @ ''.'' @ c)))
   \<and> (\<not> truthy (primitive p) \<and> \<not> truthy (complex p) \<and> enum p = Some en \<and> en \<noteq> []
        \<and> ns = Some n \<and> n \<noteq> [] \<longrightarrow>
      getDataType p ns = Inr (arraySuffixed p (n @ ''.'' @ en)))"
proof (intro conjI impI)
  have fields: "map_sum (\<lambda>_. ()) id (getPrimitiveTypeName (p\<lparr>isArray := False\<rparr>))
        = map_sum (\<lambda>_. ()) id (getPrimitiveTypeName p)"
    by (rule getPrimitiveTypeName_fields) simp_all
  show "getDataType p ns = Inr (t @ ''[]'')"
    if "isArray p \<and> getDataType (p\<lparr>isArray := False\<rparr>) ns = Inr t"
    using that fields
    by (cases "getPrimitiveTypeName p"; cases "getPrimitiveTypeName (p\<lparr>isArray := False\<rparr>)")
       (auto simp: getDataType_def split: if_splits)
  show "(\<exists>e. getDataType p ns = Inl e) = (\<exists>e. getDataType (p\<lparr>isArray := False\<rparr>) ns = Inl e)"
    if "isArray p"
    using that fields
    by (cases "getPrimitiveTypeName p"; cases "getPrimitiveTypeName (p\<lparr>isArray := False\<rparr>)")
       (auto simp: getDataType_def split: if_splits)
  show "getDataType p ns = getDataType p None"
    if "truthy (primitive p)"
    using that by (simp add: getDataType_primitive_branch)
  show "getDataType p ns = map_sum id (arraySuffixed p) (getPrimitiveTypeName p)"
    if "truthy (primitive p)"
    using that by (rule getDataType_primitive_branch)
  show "getDataType p ns = Inr (arraySuffixed p (n @ ''.'' @ c))"
    if "\<not> truthy (primitive p) \<and> complex p = Some c \<and> c \<noteq> [] \<and> ns = Some n \<and> n \<noteq> []"
    using that by (simp add: getDataType_complex_branch prefixNamespace_def)
  show "getDataType p ns = Inr (arraySuffixed p (n @ ''.'' @ en))"
    if "\<not> truthy (primitive p) \<and> \<not> truthy (complex p) \<and> enum p = Some en \<and> en \<noteq> []
        \<and> ns = Some n \<and> n \<noteq> []"
    using that by (simp add: getDataType_enum_branch prefixNamespace_def)
qed

text \<open>Arrays of a complex type, of an enum and of a primitive, under a namespace.\<close>

theorem getDataType_array_suffix_witness:
  "getDataType \<lparr>primitive = None, subType = None, complex = Some ''Foo'', enum = None,
                 isArray = True\<rparr> (Some ''Models'') = Inr ''Models.Foo[]''
   \<and> getDataType \<lparr>primitive = None, subType = None, complex = None, enum = Some ''Color'',
                   isArray = True\<rparr> (Some ''Models'') = Inr ''Models.Color[]''
   \<and> getDataType \<lparr>primitive = Some ''integer'', subType = None, complex = None, enum = None,
                   isArray = True\<rparr> (Some ''Models'') = Inr ''number[]''
   \<and> getDataType \<lparr>primitive = Some ''integer'', subType = None, complex = None, enum = None,
                   isArray = False\<rparr> (Some ''Models'') = Inr ''number''"
proof -
  let ?c = "\<lparr>primitive = None, subType = None, complex = Some ''Foo'', enum = None,
             isArray = True\<rparr>"
  let ?e = "\<lparr>primitive = None, subType = None, complex = None, enum = Some ''Color'',
             isArray = True\<rparr>"
  let ?i = "\<lparr>primitive = Some ''integer'', subType = None, complex = None, enum = None,
             isArray = True\<rparr>"
  have base: "getDataType (?i\<lparr>isArray := False\<rparr>) (Some ''Models'') = Inr ''number''"
    by (simp add: getDataType_def getPrimitiveTypeName_def)
  have "getDataType ?c (Some ''Models'') = Inr ''Models.Foo[]''"
    using getDataType_array_suffix [where p = ?c and ns = "Some ''Models''" and c = "''Foo''"
        and n = "''Models''"]
    by simp
  moreover have "getDataType ?e (Some ''Models'') = Inr ''Models.Color[]''"
    using getDataType_array_suffix [where p = ?e and ns = "Some ''Models''" and en = "''Color''"
        and n = "''Models''"]
    by simp
  moreover have "getDataType ?i (Some ''Models'') = Inr ''number[]''"
    using base getDataType_array_suffix [where p = ?i and ns = "Some ''Models''"
        and t = "''number''"]
    by simp
  ultimately show ?thesis using base by simp
qed

section \<open>buildOperationDocComments\<close>

text \<open>
  C7. The output of \<open>buildOperationDocComments\<close> is wrapped in the opening line
  \<open>/**\<close> and the closing line \<open>*/\<close> if and only if there is at least one content
  line; then these two lines enclose exactly the content lines. Without content the call
  returns the empty list, and with the description alone it returns three lines: opening
  line, the line of the description, closing line.
\<close>

theorem buildOperationDocComments_wrapping:
  "(buildOperationDocComments operation = Inr ls \<longrightarrow>
      (contentLineCount operation = 0 \<longrightarrow> ls = [])
      \<and> (0 < contentLineCount operation \<longrightarrow>
           (\<exists>body. length body = contentLineCount operation
                    \<and> ls = [''/**''] @ body @ ['' */''])))
   \<and> (contentLineCount operation = 0 \<longrightarrow> buildOperationDocComments operation = Inr [])
   \<and> (Operation.description operation = Some d \<and> d \<noteq> [] \<and> \<not> truthy (description2 operation)
        \<and> (\<forall>p\<in>set (parametersOrEmpty operation). \<not> described p) \<longrightarrow>
      buildOperationDocComments operation = Inr [''/**'', '' * '' @ d, '' */''])"
proof (intro conjI impI)
  let ?start = "(if truthy (Operation.description operation)
              then ['' * '' @ interp (Operation.description operation)] else [])
             @ (if truthy (description2 operation)
                then ['' * '' @ interp (description2 operation)] else [])"
  let ?ps = "filter described (parametersOrEmpty operation)"
  have count: "contentLineCount operation = length ?start + length ?ps"
    by (simp add: contentLineCount_def)
  {
    assume ok: "buildOperationDocComments operation = Inr ls"
    then obtain comments where c: "describeParams ?start ?ps = Inr comments"
      and ls: "ls = (if comments = [] then [] else [''/**''] @ comments @ ['' */''])"
      unfolding buildOperationDocComments_unfold
      by (cases "describeParams ?start ?ps") auto
    from describeParams_extends [OF c] obtain new where
      "comments = ?start @ new" and "length new = length ?ps"
      by blast
    then have len: "length comments = contentLineCount operation"
      using count by simp
    show "ls = []" if "contentLineCount operation = 0"
      using that len ls by simp
    show "\<exists>body. length body = contentLineCount operation \<and> ls = [''/**''] @ body @ ['' */'']"
      if "0 < contentLineCount operation"
    proof -
      from that len have "comments \<noteq> []" by auto
      with ls len show ?thesis by auto
    qed
  }
  show "buildOperationDocComments operation = Inr []" if "contentLineCount operation = 0"
  proof -
    from that count have "?start = []" and "?ps = []" by simp_all
    then show ?thesis unfolding buildOperationDocComments_unfold by simp
  qed
  show "buildOperationDocComments operation = Inr [''/**'', '' * '' @ d, '' */'']"
    if a: "Operation.description operation = Some d \<and> d \<noteq> [] \<and> \<not> truthy (description2 operation)
        \<and> (\<forall>p\<in>set (parametersOrEmpty operation). \<not> described p)"
  proof -
    from a have "?ps = []" by (simp add: filter_empty_conv)
    moreover from a have "?start = ['' * '' @ d]" by simp
    ultimately show ?thesis unfolding buildOperationDocComments_unfold by simp
  qed
qed

text \<open>
  An operation with a description and an undescribed parameter, and one whose only text
  is an empty second description.
\<close>

theorem buildOperationDocComments_wrapping_witness:
  "buildOperationDocComments
     \<lparr>Operation.description = Some ''Gets a user'', description2 = None,
      parameters = Some [\<lparr>name = ''id'', Parameter.description = None,
        Parameter.dataType = \<lparr>primitive = Some ''integer'', subType = None, complex = None,
          enum = None, isArray = False\<rparr>\<rparr>],
      responses = None\<rparr>
     = Inr [''/**'', '' * Gets a user'', '' */'']
   \<and> buildOperationDocComments
     \<lparr>Operation.description = None, description2 = Some [],
      parameters = Some [\<lparr>name = ''id'', Parameter.description = None,
        Parameter.dataType = \<lparr>primitive = Some ''integer'', subType = None, complex = None,
          enum = None, isArray = False\<rparr>\<rparr>],
      responses = None\<rparr>
     = Inr []"
  using
    buildOperationDocComments_wrapping [where d = "''Gets a user''" and operation =
      "\<lparr>Operation.description = Some ''Gets a user'', description2 = None,
        parameters = Some [\<lparr>name = ''id'', Parameter.description = None,
          Parameter.dataType = \<lparr>primitive = Some ''integer'', subType = None, complex = None,
            enum = None, isArray = False\<rparr>\<rparr>],
        responses = None\<rparr>"]
    buildOperationDocComments_wrapping [where operation =
      "\<lparr>Operation.description = None, description2 = Some [],
        parameters = Some [\<lparr>name = ''id'', Parameter.description = None,
          Parameter.dataType = \<lparr>primitive = Some ''integer'', subType = None, complex = None,
            enum = None, isArray = False\<rparr>\<rparr>],
        responses = None\<rparr>"]
  by (simp add: contentLineCount_def parametersOrEmpty_def described_def)

text \<open>
  C10. Only the data types of described parameters are resolved: when each described
  parameter has a well-formed data type the call returns, whatever the data types of the
  other parameters are; indeed the call gives the same result as on the operation with
  the undescribed parameters removed.
\<close>

theorem buildOperationDocComments_described_only:
  "((\<forall>p\<in>set (parametersOrEmpty operation).
        described p \<longrightarrow> wellFormed (Parameter.dataType p)) \<longrightarrow>
      (\<exists>ls. buildOperationDocComments operation = Inr ls))
   \<and> buildOperationDocComments operation =
       buildOperationDocComments
         (operation\<lparr>parameters := Some (filter described (parametersOrEmpty operation))\<rparr>)"
proof (intro conjI impI)
  assume wf: "\<forall>p\<in>set (parametersOrEmpty operation).
        described p \<longrightarrow> wellFormed (Parameter.dataType p)"
  have "\<forall>p\<in>set (filter described (parametersOrEmpty operation)).
          \<exists>t. getDataType (Parameter.dataType p) None = Inr t"
    using wf wellFormed_resolves by auto
  from describeParams_succeeds [OF this] obtain comments where
    "describeParams
       ((if truthy (Operation.description operation)
         then ['' * '' @ interp (Operation.description operation)] else [])
        @ (if truthy (description2 operation)
           then ['' * '' @ interp (description2 operation)] else []))
       (filter described (parametersOrEmpty operation)) = Inr comments"
    by blast
  then show "\<exists>ls. buildOperationDocComments operation = Inr ls"
    unfolding buildOperationDocComments_unfold by simp
next
  show "buildOperationDocComments operation =
       buildOperationDocComments
         (operation\<lparr>parameters := Some (filter described (parametersOrEmpty operation))\<rparr>)"
    unfolding buildOperationDocComments_unfold
    by (simp add: parametersOrEmpty_def)
qed

text \<open>
  An undescribed parameter whose data type sets no kind (so that \<open>getDataType\<close> fails
  on it) beside a described, well-formed one.
\<close>

theorem buildOperationDocComments_described_only_witness:
  "\<not> described \<lparr>name = ''raw'', Parameter.description = None,
       Parameter.dataType = \<lparr>primitive = None, subType = None, complex = None,
         enum = None, isArray = False\<rparr>\<rparr>
   \<and> (\<exists>e. getDataType \<lparr>primitive = None, subType = None, complex = None, enum = None,
                         isArray = False\<rparr> None = Inl e)
   \<and> wellFormed \<lparr>primitive = Some ''integer'', subType = None, complex = None, enum = None,
                  isArray = False\<rparr>
   \<and> (\<exists>ls. buildOperationDocComments
        \<lparr>Operation.description = None, description2 = None,
         parameters = Some
           [\<lparr>name = ''raw'', Parameter.description = None,
             Parameter.dataType = \<lparr>primitive = None, subType = None, complex = None,
               enum = None, isArray = False\<rparr>\<rparr>,
            \<lparr>name = ''id'', Parameter.description = Some ''the id'',
             Parameter.dataType = \<lparr>primitive = Some ''integer'', subType = None,
               complex = None, enum = None, isArray = False\<rparr>\<rparr>],
         responses = None\<rparr> = Inr ls)
   \<and> buildOperationDocComments
        \<lparr>Operation.description = None, description2 = None,
         parameters = Some
           [\<lparr>name = ''raw'', Parameter.description = None,
             Parameter.dataType = \<lparr>primitive = None, subType = None, complex = None,
               enum = None, isArray = False\<rparr>\<rparr>,
            \<lparr>name = ''id'', Parameter.description = Some ''the id'',
             Parameter.dataType = \<lparr>primitive = Some ''integer'', subType = None,
               complex = None, enum = None, isArray = False\<rparr>\<rparr>],
         responses = None\<rparr>
       = Inr [''/**'', '' * @param {number} id - the id'', '' */'']"
proof -
  let ?raw = "\<lparr>primitive = None, subType = None, complex = None, enum = None,
               isArray = False\<rparr>"
  let ?int = "\<lparr>primitive = Some ''integer'', subType = None, complex = None, enum = None,
               isArray = False\<rparr>"
  let ?op = "\<lparr>Operation.description = None, description2 = None,
         parameters = Some
           [\<lparr>name = ''raw'', Parameter.description = None, Parameter.dataType = ?raw\<rparr>,
            \<lparr>name = ''id'', Parameter.description = Some ''the id'',
             Parameter.dataType = ?int\<rparr>],
         responses = None\<rparr>"
  have wf: "wellFormed ?int"
    by (simp add: wellFormed_def recognizedPrimitives_def)
  have nd: "\<not> described \<lparr>name = ''raw'', Parameter.description = None,
               Parameter.dataType = ?raw\<rparr>"
    by (simp add: described_def)
  have h: "\<forall>p\<in>set (parametersOrEmpty ?op). described p \<longrightarrow> wellFormed (Parameter.dataType p)"
    using wf nd by (simp add: parametersOrEmpty_def)
  have f: "\<exists>e. getDataType ?raw None = Inl e"
    by (simp add: getDataType_def)
  have ex: "\<exists>ls. buildOperationDocComments ?op = Inr ls"
    using h buildOperationDocComments_described_only [of ?op] by blast
  have out: "buildOperationDocComments ?op
      = Inr [''/**'', '' * @param {number} id - the id'', '' */'']"
    by (simp add: buildOperationDocComments_def parametersOrEmpty_def getDataType_def
        getPrimitiveTypeName_def)
  from nd f wf ex out show ?thesis
    by blast
qed

section \<open>getReturnType\<close>

text \<open>
  C1 (as amended). Without responses \<open>getReturnType\<close> returns the void default:
  \<open>options.voidType\<close>, or \<open>void\<close> when that is absent. Otherwise it returns the
  resolution (under the namespace \<open>options.modelsNs\<close>) of the data type of the first
  response whose key converts to a number from 200 (included) to 300 (excluded) and which
  declares a data type, where the responses are taken in the order in which
  \<open>for (... in ...)\<close> visits their keys: the keys that are array indices in ascending
  numeric order, then the other keys in the order of their creation. When no response
  qualifies, it returns the void default again. This is for a responses object none of
  whose own keys is \<open>hasOwnProperty\<close>.
\<close>

theorem getReturnType_first_enumerated:
  "(responses operation = None \<longrightarrow>
      getReturnType toNumber operation options = Inr (voidDefault options))
   \<and> (responses operation = Some rs \<and> distinct (map fst rs)
        \<and> ''hasOwnProperty'' \<notin> set (map fst rs)
        \<and> i < length (forInOrder rs) \<and> qualifies toNumber (forInOrder rs ! i)
        \<and> (\<forall>j<i. \<not> qualifies toNumber (forInOrder rs ! j))
        \<and> Response.dataType (snd (forInOrder rs ! i)) = Some dt \<longrightarrow>
      getReturnType toNumber operation options = getDataType dt (modelsNs options))
   \<and> (responses operation = Some rs \<and> distinct (map fst rs)
        \<and> ''hasOwnProperty'' \<notin> set (map fst rs)
        \<and> (\<forall>e\<in>set rs. \<not> qualifies toNumber e) \<longrightarrow>
      getReturnType toNumber operation options = Inr (voidDefault options))
   \<and> (voidType options = None \<longrightarrow> voidDefault options = ''void'')
   \<and> (voidType options = Some v \<and> v \<noteq> [] \<longrightarrow> voidDefault options = v)"
proof (intro conjI impI)
  show "getReturnType toNumber operation options = Inr (voidDefault options)"
    if "responses operation = None"
    using that by (simp add: getReturnType_def void_default)
  show "getReturnType toNumber operation options = getDataType dt (modelsNs options)"
    if a: "responses operation = Some rs \<and> distinct (map fst rs)
        \<and> ''hasOwnProperty'' \<notin> set (map fst rs)
        \<and> i < length (forInOrder rs) \<and> qualifies toNumber (forInOrder rs ! i)
        \<and> (\<forall>j<i. \<not> qualifies toNumber (forInOrder rs ! j))
        \<and> Response.dataType (snd (forInOrder rs ! i)) = Some dt"
  proof -
    from a have own: "map_of rs ''hasOwnProperty'' = None"
      by (intro no_own_hasOwnProperty) simp
    from a have look: "\<forall>e\<in>set (forInOrder rs). map_of rs (fst e) = Some (snd e)"
      by (intro forInOrder_lookup) simp
    from a have "scanResponses toNumber rs (map fst (forInOrder rs)) (modelsNs options)
        = Some (getDataType dt (modelsNs options))"
      by (intro scanResponses_entries_first [OF own look, of i]) auto
    with a show ?thesis by (simp add: getReturnType_def)
  qed
  show "getReturnType toNumber operation options = Inr (voidDefault options)"
    if a: "responses operation = Some rs \<and> distinct (map fst rs)
        \<and> ''hasOwnProperty'' \<notin> set (map fst rs)
        \<and> (\<forall>e\<in>set rs. \<not> qualifies toNumber e)"
  proof -
    from a have own: "map_of rs ''hasOwnProperty'' = None"
      by (intro no_own_hasOwnProperty) simp
    from a have look: "\<forall>e\<in>set (forInOrder rs). map_of rs (fst e) = Some (snd e)"
      by (intro forInOrder_lookup) simp
    from a have "\<forall>e\<in>set (forInOrder rs). \<not> qualifies toNumber e"
      by (simp add: set_forInOrder)
    from scanResponses_entries_none [OF own look this] a show ?thesis
      by (simp add: getReturnType_def void_default)
  qed
  show "voidDefault options = ''void''" if "voidType options = None"
    using that by (simp add: voidDefault_def)
  show "voidDefault options = v" if "voidType options = Some v \<and> v \<noteq> []"
    using that by (simp add: voidDefault_def)
qed

text \<open>
  The responses \<open>{"200": {dataType: User}, "404": {}}\<close>; responses created in the order
  404, 201, \<open>default\<close>, 200, of which 200 is visited first; the responses
  \<open>{"404": {}}\<close>; and no responses with \<open>voidType\<close> set.
\<close>

theorem getReturnType_first_enumerated_witness:
  "getReturnType decimalKey
      \<lparr>Operation.description = None, description2 = None, parameters = None,
       responses = Some
         [(''200'', \<lparr>Response.dataType = Some \<lparr>primitive = None, subType = None,
             complex = Some ''User'', enum = None, isArray = False\<rparr>\<rparr>),
          (''404'', \<lparr>Response.dataType = None\<rparr>)]\<rparr>
      \<lparr>modelsNs = Some ''Models'', voidType = None\<rparr>
     = Inr ''Models.User''
   \<and> getReturnType decimalKey
      \<lparr>Operation.description = None, description2 = None, parameters = None,
       responses = Some
         [(''404'', \<lparr>Response.dataType = None\<rparr>),
          (''201'', \<lparr>Response.dataType = Some \<lparr>primitive = None, subType = None,
             complex = Some ''Created'', enum = None, isArray = False\<rparr>\<rparr>),
          (''default'', \<lparr>Response.dataType = Some \<lparr>primitive = Some ''string'',
             subType = None, complex = None, enum = None, isArray = False\<rparr>\<rparr>),
          (''200'', \<lparr>Response.dataType = Some \<lparr>primitive = None, subType = None,
             complex = Some ''User'', enum = None, isArray = True\<rparr>\<rparr>)]\<rparr>
      \<lparr>modelsNs = None, voidType = None\<rparr>
     = Inr ''User[]''
   \<and> getReturnType decimalKey
      \<lparr>Operation.description = None, description2 = None, parameters = None,
       responses = Some [(''404'', \<lparr>Response.dataType = None\<rparr>)]\<rparr>
      \<lparr>modelsNs = Some ''Models'', voidType = None\<rparr>
     = Inr ''void''
   \<and> getReturnType decimalKey
      \<lparr>Operation.description = None, description2 = None, parameters = None,
       responses = None\<rparr>
      \<lparr>modelsNs = Some ''Models'', voidType = Some ''any''\<rparr>
     = Inr ''any''"
proof -
  let ?user = "\<lparr>primitive = None, subType = None, complex = Some ''User'', enum = None,
                isArray = False\<rparr>"
  let ?users = "\<lparr>primitive = None, subType = None, complex = Some ''User'', enum = None,
                 isArray = True\<rparr>"
  let ?created = "\<lparr>primitive = None, subType = None, complex = Some ''Created'',
                   enum = None, isArray = False\<rparr>"
  let ?str = "\<lparr>primitive = Some ''string'', subType = None, complex = None, enum = None,
               isArray = False\<rparr>"
  let ?rs1 = "[(''200'', \<lparr>Response.dataType = Some ?user\<rparr>),
               (''404'', \<lparr>Response.dataType = None\<rparr>)]"
  let ?rs2 = "[(''404'', \<lparr>Response.dataType = None\<rparr>),
               (''201'', \<lparr>Response.dataType = Some ?created\<rparr>),
               (''default'', \<lparr>Response.dataType = Some ?str\<rparr>),
               (''200'', \<lparr>Response.dataType = Some ?users\<rparr>)]"
  let ?rs3 = "[(''404'', \<lparr>Response.dataType = None\<rparr>)]"
  let ?op = "\<lambda>rs. \<lparr>Operation.description = None, description2 = None, parameters = None,
               responses = rs\<rparr>"
  have o1: "forInOrder ?rs1 = ?rs1"
    by (simp add: forInOrder_def arrayIndex_200 arrayIndex_404)
  have o2: "forInOrder ?rs2 =
      [(''200'', \<lparr>Response.dataType = Some ?users\<rparr>),
       (''201'', \<lparr>Response.dataType = Some ?created\<rparr>),
       (''404'', \<lparr>Response.dataType = None\<rparr>),
       (''default'', \<lparr>Response.dataType = Some ?str\<rparr>)]"
    by (simp add: forInOrder_def arrayIndex_200 arrayIndex_201 arrayIndex_404
        arrayIndex_default)
  have "getReturnType decimalKey (?op (Some ?rs1)) \<lparr>modelsNs = Some ''Models'', voidType = None\<rparr>
      = getDataType ?user (Some ''Models'')"
    using getReturnType_first_enumerated [where operation = "?op (Some ?rs1)" and rs = ?rs1
        and i = 0 and dt = ?user and toNumber = decimalKey
        and options = "\<lparr>modelsNs = Some ''Models'', voidType = None\<rparr>"]
    by (simp add: o1 qualifies_def inSuccessRange_def decimalKey_200)
  moreover have "getReturnType decimalKey (?op (Some ?rs2)) \<lparr>modelsNs = None, voidType = None\<rparr>
      = getDataType ?users None"
    using getReturnType_first_enumerated [where operation = "?op (Some ?rs2)" and rs = ?rs2
        and i = 0 and dt = ?users and toNumber = decimalKey
        and options = "\<lparr>modelsNs = None, voidType = None\<rparr>"]
    by (simp add: o2 qualifies_def inSuccessRange_def decimalKey_200)
  moreover have "getReturnType decimalKey (?op (Some ?rs3))
        \<lparr>modelsNs = Some ''Models'', voidType = None\<rparr> = Inr ''void''"
    using getReturnType_first_enumerated [where operation = "?op (Some ?rs3)" and rs = ?rs3
        and toNumber = decimalKey
        and options = "\<lparr>modelsNs = Some ''Models'', voidType = None\<rparr>"]
    by (simp add: qualifies_def inSuccessRange_def decimalKey_404)
  moreover have "getReturnType decimalKey (?op None)
        \<lparr>modelsNs = Some ''Models'', voidType = Some ''any''\<rparr> = Inr ''any''"
    using getReturnType_first_enumerated [where operation = "?op None" and toNumber = decimalKey
        and options = "\<lparr>modelsNs = Some ''Models'', voidType = Some ''any''\<rparr>"
        and v = "''any''"]
    by simp
  ultimately show ?thesis
    by (simp add: getDataType_def prefixNamespace_def)
qed

text \<open>
  C1 as stated takes the responses in the order of their insertion. In the responses
  created in the order 404, 201, 200 the first qualifying one in that order is 201, of type
  \<open>Created\<close>; the code visits the key 200 first and returns the type \<open>User\<close>.
\<close>

theorem getReturnType_insertion_order_counterexample:
  "find (qualifies decimalKey)
      [(''404'', \<lparr>Response.dataType = None\<rparr>),
       (''201'', \<lparr>Response.dataType = Some \<lparr>primitive = None, subType = None,
          complex = Some ''Created'', enum = None, isArray = False\<rparr>\<rparr>),
       (''200'', \<lparr>Response.dataType = Some \<lparr>primitive = None, subType = None,
          complex = Some ''User'', enum = None, isArray = False\<rparr>\<rparr>)]
     = Some (''201'', \<lparr>Response.dataType = Some \<lparr>primitive = None, subType = None,
          complex = Some ''Created'', enum = None, isArray = False\<rparr>\<rparr>)
   \<and> getDataType \<lparr>primitive = None, subType = None, complex = Some ''Created'', enum = None,
                   isArray = False\<rparr> (Some ''Models'') = Inr ''Models.Created''
   \<and> getReturnType decimalKey
      \<lparr>Operation.description = None, description2 = None, parameters = None,
       responses = Some
         [(''404'', \<lparr>Response.dataType = None\<rparr>),
          (''201'', \<lparr>Response.dataType = Some \<lparr>primitive = None, subType = None,
             complex = Some ''Created'', enum = None, isArray = False\<rparr>\<rparr>),
          (''200'', \<lparr>Response.dataType = Some \<lparr>primitive = None, subType = None,
             complex = Some ''User'', enum = None, isArray = False\<rparr>\<rparr>)]\<rparr>
      \<lparr>modelsNs = Some ''Models'', voidType = None\<rparr>
     = Inr ''Models.User''"
  by (simp add: qualifies_def inSuccessRange_def decimalKey_200 decimalKey_201 decimalKey_404
      getReturnType_def forInOrder_def arrayIndex_200 arrayIndex_201 arrayIndex_404
      getDataType_def prefixNamespace_def)

text \<open>
  A responses object with an own key \<open>hasOwnProperty\<close> makes the first turn of the loop
  throw.
\<close>

lemma getReturnType_shadowed_hasOwnProperty:
  "getReturnType toNumber
      \<lparr>Operation.description = d1, description2 = d2, parameters = ps,
       responses = Some [(''hasOwnProperty'', r)]\<rparr> options
     = Inl NotAFunction"
  by (simp add: getReturnType_def forInOrder_def)

section \<open>getMethodSignature\<close>

text \<open>
  C8. The signature is \<open>name(parameters): returnType\<close>: the parameters are taken in
  order, each data type is resolved under the namespace \<open>options.modelsNs\<close>, and the
  pairs \<open>name: type\<close> are joined with a comma and a space, with nothing after the last
  pair and nothing at all for an empty list. In particular, the operation \<open>getUser\<close>
  with the one parameter \<open>id\<close> of primitive \<open>integer\<close>, a response 200 of complex type
  \<open>User\<close> and the namespace \<open>Models\<close> has the signature
  \<open>getUser(id: number): Models.User\<close>.
\<close>

theorem getMethodSignature_composition:
  "(list_all2 (\<lambda>p t. getDataType (Parameter.dataType p) (modelsNs options) = Inr t)
        (parametersOrEmpty operation) ts
      \<and> getReturnType toNumber operation options = Inr r \<longrightarrow>
      getMethodSignature toNumber operationName operation options
        = Inr (operationName @ ''(''
               @ joinWith '', '' (map2 parameterPair (parametersOrEmpty operation) ts)
               @ ''): ''
               @ (case returnTypeTransformer options of Some f \<Rightarrow> f r | None \<Rightarrow> r)))
   \<and> (toNumber ''200'' = Finite 200 \<longrightarrow>
      getMethodSignature toNumber ''getUser''
        \<lparr>Operation.description = d1, description2 = d2,
         parameters = Some [\<lparr>name = ''id'', Parameter.description = d3,
           Parameter.dataType = \<lparr>primitive = Some ''integer'', subType = None, complex = None,
             enum = None, isArray = False\<rparr>\<rparr>],
         responses = Some [(''200'', \<lparr>Response.dataType =
           Some \<lparr>primitive = None, subType = None, complex = Some ''User'', enum = None,
             isArray = False\<rparr>\<rparr>)]\<rparr>
        \<lparr>modelsNs = Some ''Models'', voidType = None, returnTypeTransformer = None\<rparr>
      = Inr ''getUser(id: number): Models.User'')"
proof (intro conjI impI)
  assume a: "list_all2 (\<lambda>p t. getDataType (Parameter.dataType p) (modelsNs options) = Inr t)
        (parametersOrEmpty operation) ts
      \<and> getReturnType toNumber operation options = Inr r"
  then have "reduceParameters (modelsNs options) [] (parametersOrEmpty operation)
      = Inr (joinWith '', '' (map2 parameterPair (parametersOrEmpty operation) ts))"
    by (intro reduceParameters_join) simp
  with a show "getMethodSignature toNumber operationName operation options
        = Inr (operationName @ ''(''
               @ joinWith '', '' (map2 parameterPair (parametersOrEmpty operation) ts)
               @ ''): ''
               @ (case returnTypeTransformer options of Some f \<Rightarrow> f r | None \<Rightarrow> r))"
    by (simp add: getMethodSignature_def split: option.splits)
next
  assume "toNumber ''200'' = Finite 200"
  then show "getMethodSignature toNumber ''getUser''
        \<lparr>Operation.description = d1, description2 = d2,
         parameters = Some [\<lparr>name = ''id'', Parameter.description = d3,
           Parameter.dataType = \<lparr>primitive = Some ''integer'', subType = None, complex = None,
             enum = None, isArray = False\<rparr>\<rparr>],
         responses = Some [(''200'', \<lparr>Response.dataType =
           Some \<lparr>primitive = None, subType = None, complex = Some ''User'', enum = None,
             isArray = False\<rparr>\<rparr>)]\<rparr>
        \<lparr>modelsNs = Some ''Models'', voidType = None, returnTypeTransformer = None\<rparr>
      = Inr ''getUser(id: number): Models.User''"
    by (simp add: getMethodSignature_def getReturnType_def forInOrder_def isArrayIndex_def
        decimalValue_def isDigit_def digitValue_def parametersOrEmpty_def
        getDataType_def getPrimitiveTypeName_def prefixNamespace_def)
qed

text \<open>
  A signature with two parameters, and the signature of \<open>getUser\<close>.
\<close>

theorem getMethodSignature_composition_witness:
  "getMethodSignature decimalKey ''findUsers''
      \<lparr>Operation.description = None, description2 = None,
       parameters = Some
         [\<lparr>name = ''id'', Parameter.description = None,
           Parameter.dataType = \<lparr>primitive = Some ''integer'', subType = None, complex = None,
             enum = None, isArray = False\<rparr>\<rparr>,
          \<lparr>name = ''roles'', Parameter.description = None,
           Parameter.dataType = \<lparr>primitive = None, subType = None, complex = None,
             enum = Some ''Role'', isArray = True\<rparr>\<rparr>],
       responses = Some [(''200'', \<lparr>Response.dataType =
         Some \<lparr>primitive = None, subType = None, complex = Some ''User'', enum = None,
           isArray = False\<rparr>\<rparr>)]\<rparr>
      \<lparr>modelsNs = Some ''Models'', voidType = None, returnTypeTransformer = None\<rparr>
     = Inr ''findUsers(id: number, roles: Models.Role[]): Models.User''
   \<and> getMethodSignature decimalKey ''getUser''
      \<lparr>Operation.description = None, description2 = None,
       parameters = Some
         [\<lparr>name = ''id'', Parameter.description = None,
           Parameter.dataType = \<lparr>primitive = Some ''integer'', subType = None, complex = None,
             enum = None, isArray = False\<rparr>\<rparr>],
       responses = Some [(''200'', \<lparr>Response.dataType =
         Some \<lparr>primitive = None, subType = None, complex = Some ''User'', enum = None,
           isArray = False\<rparr>\<rparr>)]\<rparr>
      \<lparr>modelsNs = Some ''Models'', voidType = None, returnTypeTransformer = None\<rparr>
     = Inr ''getUser(id: number): Models.User''"
proof -
  let ?int = "\<lparr>primitive = Some ''integer'', subType = None, complex = None, enum = None,
               isArray = False\<rparr>"
  let ?roles = "\<lparr>primitive = None, subType = None, complex = None, enum = Some ''Role'',
                 isArray = True\<rparr>"
  let ?user = "\<lparr>primitive = None, subType = None, complex = Some ''User'', enum = None,
                isArray = False\<rparr>"
  let ?ps = "[\<lparr>name = ''id'', Parameter.description = None, Parameter.dataType = ?int\<rparr>,
              \<lparr>name = ''roles'', Parameter.description = None, Parameter.dataType = ?roles\<rparr>]"
  let ?op = "\<lparr>Operation.description = None, description2 = None, parameters = Some ?ps,
              responses = Some [(''200'', \<lparr>Response.dataType = Some ?user\<rparr>)]\<rparr>"
  let ?opts = "\<lparr>modelsNs = Some ''Models'', voidType = None, returnTypeTransformer = None\<rparr>"
  have types: "list_all2 (\<lambda>p t. getDataType (Parameter.dataType p) (modelsNs ?opts) = Inr t)
      (parametersOrEmpty ?op) [''number'', ''Models.Role[]'']"
    by (simp add: parametersOrEmpty_def getDataType_def getPrimitiveTypeName_def
        prefixNamespace_def)
  have ret: "getReturnType decimalKey ?op ?opts = Inr ''Models.User''"
    by (simp add: getReturnType_def forInOrder_single_200 decimalKey_200 getDataType_def
        prefixNamespace_def)
  have "getMethodSignature decimalKey ''findUsers'' ?op ?opts
      = Inr ''findUsers(id: number, roles: Models.Role[]): Models.User''"
    using types ret
      getMethodSignature_composition [where operation = ?op and options = ?opts
        and ts = "[''number'', ''Models.Role[]'']" and r = "''Models.User''"
        and toNumber = decimalKey and operationName = "''findUsers''"]
    by (simp add: parametersOrEmpty_def parameterPair_def)
  moreover have "getMethodSignature decimalKey ''getUser''
      \<lparr>Operation.description = None, description2 = None,
       parameters = Some
         [\<lparr>name = ''id'', Parameter.description = None, Parameter.dataType = ?int\<rparr>],
       responses = Some [(''200'', \<lparr>Response.dataType = Some ?user\<rparr>)]\<rparr> ?opts
     = Inr ''getUser(id: number): Models.User''"
    using decimalKey_200
      getMethodSignature_composition [where toNumber = decimalKey and ?d1.0 = None
        and ?d2.0 = None and ?d3.0 = None]
    by blast
  ultimately show ?thesis by simp
qed

text \<open>
  C9. With a return type transformer the signature differs from the one without it in
  the return type only, the segment after the closing parenthesis: the name and the
  parameter list are the same, and the transformer is applied to the resolved return
  type. The call fails with a transformer exactly when it fails without one, with the
  same error.
\<close>

theorem getMethodSignature_transformer_frame:
  "(getMethodSignature toNumber operationName operation
        (options\<lparr>returnTypeTransformer := None\<rparr>) = Inr s \<longrightarrow>
      (\<exists>params r.
          reduceParameters (modelsNs options) [] (parametersOrEmpty operation) = Inr params
          \<and> getReturnType toNumber operation options = Inr r
          \<and> s = operationName @ ''('' @ params @ ''): '' @ r
          \<and> getMethodSignature toNumber operationName operation
               (options\<lparr>returnTypeTransformer := Some f\<rparr>)
             = Inr (operationName @ ''('' @ params @ ''): '' @ f r)))
   \<and> (getMethodSignature toNumber operationName operation
          (options\<lparr>returnTypeTransformer := None\<rparr>) = Inl e
      \<longleftrightarrow> getMethodSignature toNumber operationName operation
          (options\<lparr>returnTypeTransformer := Some f\<rparr>) = Inl e)"
  by (cases "reduceParameters (modelsNs options) [] (parametersOrEmpty operation)";
      cases "getReturnType toNumber operation options")
     (auto simp: getMethodSignature_def)

text \<open>
  The signature of \<open>getUser\<close> without a transformer, and with one that wraps the type
  in \<open>Promise<...>\<close>.
\<close>

theorem getMethodSignature_transformer_frame_witness:
  "getMethodSignature decimalKey ''getUser''
      \<lparr>Operation.description = None, description2 = None,
       parameters = Some
         [\<lparr>name = ''id'', Parameter.description = None,
           Parameter.dataType = \<lparr>primitive = Some ''integer'', subType = None, complex = None,
             enum = None, isArray = False\<rparr>\<rparr>],
       responses = Some [(''200'', \<lparr>Response.dataType =
         Some \<lparr>primitive = None, subType = None, complex = Some ''User'', enum = None,
           isArray = False\<rparr>\<rparr>)]\<rparr>
      \<lparr>modelsNs = Some ''Models'', voidType = None, returnTypeTransformer = None\<rparr>
     = Inr ''getUser(id: number): Models.User''
   \<and> getMethodSignature decimalKey ''getUser''
      \<lparr>Operation.description = None, description2 = None,
       parameters = Some
         [\<lparr>name = ''id'', Parameter.description = None,
           Parameter.dataType = \<lparr>primitive = Some ''integer'', subType = None, complex = None,
             enum = None, isArray = False\<rparr>\<rparr>],
       responses = Some [(''200'', \<lparr>Response.dataType =
         Some \<lparr>primitive = None, subType = None, complex = Some ''User'', enum = None,
           isArray = False\<rparr>\<rparr>)]\<rparr>
      \<lparr>modelsNs = Some ''Models'', voidType = None,
       returnTypeTransformer = Some (\<lambda>t. ''Promise<'' @ t @ ''>'')\<rparr>
     = Inr ''getUser(id: number): Promise<Models.User>''"
proof -
  let ?int = "\<lparr>primitive = Some ''integer'', subType = None, complex = None, enum = None,
               isArray = False\<rparr>"
  let ?user = "\<lparr>primitive = None, subType = None, complex = Some ''User'', enum = None,
                isArray = False\<rparr>"
  let ?op = "\<lparr>Operation.description = None, description2 = None,
       parameters = Some
         [\<lparr>name = ''id'', Parameter.description = None, Parameter.dataType = ?int\<rparr>],
       responses = Some [(''200'', \<lparr>Response.dataType = Some ?user\<rparr>)]\<rparr>"
  let ?opts = "\<lparr>modelsNs = Some ''Models'', voidType = None, returnTypeTransformer = None\<rparr>"
  let ?f = "\<lambda>t. ''Promise<'' @ t @ ''>''"
  have plain: "getMethodSignature decimalKey ''getUser'' ?op
      (?opts\<lparr>returnTypeTransformer := None\<rparr>) = Inr ''getUser(id: number): Models.User''"
    by (simp add: getMethodSignature_def getReturnType_def forInOrder_def isArrayIndex_def
        decimalValue_def isDigit_def digitValue_def parametersOrEmpty_def
        getDataType_def getPrimitiveTypeName_def prefixNamespace_def decimalKey_200)
  with getMethodSignature_transformer_frame [where toNumber = decimalKey
      and operationName = "''getUser''" and operation = ?op and options = ?opts
      and s = "''getUser(id: number): Models.User''" and f = ?f]
  obtain params r where
    p: "reduceParameters (modelsNs ?opts) [] (parametersOrEmpty ?op) = Inr params"
    and r: "getReturnType decimalKey ?op ?opts = Inr r"
    and t: "getMethodSignature decimalKey ''getUser'' ?op
             (?opts\<lparr>returnTypeTransformer := Some ?f\<rparr>)
           = Inr (''getUser'' @ ''('' @ params @ ''): '' @ ?f r)"
    by blast
  from p have "params = ''id: number''"
    by (simp add: parametersOrEmpty_def getDataType_def getPrimitiveTypeName_def)
  moreover from r have "r = ''Models.User''"
    by (simp add: getReturnType_def forInOrder_single_200 getDataType_def prefixNamespace_def
        decimalKey_200)
  ultimately show ?thesis using plain t by simp
qed

end
